theory Spec2Isabelle
  imports Complex_Main "HOL-Library.Sublist"
begin

section \<open>The data model of the activity script\<close>

text \<open>
  The script is one linear procedure, \<open>main\<close>, over five module-level constants. Its
  behaviour depends on the operating system, the clock, the random source and the
  \<open>git\<close> subprocesses; all of those are gathered in a record \<open>env\<close>, and everything the
  script does to the outside (the target file, files opened, subprocesses started, lines
  printed, random samples drawn) is gathered in a record \<open>world\<close>.

  Text is represented by its UTF-8 bytes (the file is opened with \<open>encoding="utf-8"\<close>), so
  the em dash of the source's f-strings is the three bytes E2 80 94.
\<close>

subsection \<open>Configuration (the module-level constants)\<close>

record config =
  REPO_DIR :: string
  FILENAME :: string
  PROBABILITY :: real
  DRY_RUN :: bool
  NOTES :: "string list"

text \<open>The constants as they stand in the source.\<close>

definition default_config :: config where
  "default_config =
     \<lparr> REPO_DIR = ''/path/to/your/repo'',
       FILENAME = ''activity_log.txt'',
       PROBABILITY = 7 / 10,
       DRY_RUN = False,
       NOTES = [''refactor notes'', ''small doc tweak'', ''daily log entry'',
                ''update dependencies list'', ''tiny formatting fix'',
                ''add sample output'', ''note about tests''] \<rparr>"

subsection \<open>Dates: \<open>datetime.now()\<close>, \<open>weekday()\<close>, \<open>isoformat(timespec='seconds')\<close>\<close>

record datetime =
  year :: nat
  month :: nat
  day :: nat
  hour :: nat
  minute :: nat
  second :: nat
  microsecond :: nat

definition is_leap :: "nat \<Rightarrow> bool" where
  "is_leap y = (y mod 4 = 0 \<and> (y mod 100 \<noteq> 0 \<or> y mod 400 = 0))"

definition days_in_month :: "nat \<Rightarrow> nat \<Rightarrow> nat" where
  "days_in_month y m =
     (if m = 2 \<and> is_leap y then 29
      else [0, 31, 28, 31, 30, 31, 30, 31, 31, 30, 31, 30, 31] ! m)"

text \<open>The ranges that Python's \<open>datetime\<close> constructor enforces.\<close>

definition valid_datetime :: "datetime \<Rightarrow> bool" where
  "valid_datetime d =
     (1 \<le> year d \<and> year d \<le> 9999 \<and> 1 \<le> month d \<and> month d \<le> 12 \<and>
      1 \<le> day d \<and> day d \<le> days_in_month (year d) (month d) \<and>
      hour d < 24 \<and> minute d < 60 \<and> second d < 60 \<and> microsecond d < 1000000)"

definition days_before_year :: "nat \<Rightarrow> nat" where
  "days_before_year y =
     (let y1 = y - 1 in y1 * 365 + y1 div 4 - y1 div 100 + y1 div 400)"

definition days_before_month :: "nat \<Rightarrow> nat \<Rightarrow> nat" where
  "days_before_month y m =
     [0, 0, 31, 59, 90, 120, 151, 181, 212, 243, 273, 304, 334] ! m
       + (if m > 2 \<and> is_leap y then 1 else 0)"

definition toordinal :: "datetime \<Rightarrow> nat" where
  "toordinal d = days_before_year (year d) + days_before_month (year d) (month d) + day d"

text \<open>Monday is 0, Sunday is 6.\<close>

definition weekday :: "datetime \<Rightarrow> nat" where
  "weekday d = (toordinal d + 6) mod 7"

definition digit_char :: "nat \<Rightarrow> char" where
  "digit_char n = ''0123456789'' ! n"

fun decimal :: "nat \<Rightarrow> string" where
  "decimal n = (if n < 10 then [digit_char n] else decimal (n div 10) @ [digit_char (n mod 10)])"

declare decimal.simps [simp del]

text \<open>\<open>"%0wd" % n\<close>: decimal, padded with zeros on the left to width \<open>w\<close>.\<close>

definition zero_padded :: "nat \<Rightarrow> nat \<Rightarrow> string" where
  "zero_padded w n = replicate (w - length (decimal n)) (CHR ''0'') @ decimal n"

text \<open>
  \<open>isoformat(timespec='seconds')\<close> of a naive datetime (\<open>datetime.now()\<close> carries no time
  zone): \<open>YYYY-MM-DDTHH:MM:SS\<close>; the microseconds are dropped.
\<close>

definition isoformat_seconds :: "datetime \<Rightarrow> string" where
  "isoformat_seconds d =
     zero_padded 4 (year d) @ ''-'' @ zero_padded 2 (month d) @ ''-'' @ zero_padded 2 (day d)
       @ ''T'' @ zero_padded 2 (hour d) @ '':'' @ zero_padded 2 (minute d)
       @ '':'' @ zero_padded 2 (second d)"

subsection \<open>Strings and paths\<close>

definition em_dash :: string where
  "em_dash = [CHR 0xE2, CHR 0x80, CHR 0x94]"

definition newline :: string where
  "newline = [CHR 0x0A]"

text \<open>
  The two f-strings of the source: the line written to the file (line 57) and the commit
  message (line 82).
\<close>

definition activity_line :: "string \<Rightarrow> string \<Rightarrow> string" where
  "activity_line ts note = ts @ '' '' @ em_dash @ '' '' @ note @ newline"

definition commit_message :: "string \<Rightarrow> string \<Rightarrow> string" where
  "commit_message ts note = ''Automated activity: '' @ ts @ '' '' @ em_dash @ '' '' @ note"

text \<open>\<open>os.path.join(a, b)\<close> on POSIX.\<close>

definition os_path_join :: "string \<Rightarrow> string \<Rightarrow> string" where
  "os_path_join a b =
     (if b \<noteq> [] \<and> hd b = CHR ''/'' then b
      else if a = [] \<or> last a = CHR ''/'' then a @ b
      else a @ ''/'' @ b)"

text \<open>
  \<open>random.choice(seq)\<close>: raises \<open>IndexError\<close> on an empty sequence (the value \<open>None\<close>),
  otherwise returns the element at an index below the length; which one is decided by the
  entropy the random source supplies.
\<close>

definition random_choice :: "nat \<Rightarrow> 'a list \<Rightarrow> 'a option" where
  "random_choice entropy xs =
     (if xs = [] then None else Some (xs ! (entropy mod length xs)))"

subsection \<open>Subprocesses\<close>

record CompletedProcess =
  returncode :: int
  stdout :: string
  stderr :: string

text \<open>
  \<open>subprocess.run(..., check=False)\<close> either returns a \<open>CompletedProcess\<close> or raises
  (the executable is missing, the working directory vanished, the output does not
  decode); \<open>Raises m\<close> carries \<open>str(e)\<close>.
\<close>

datatype run_result = Done CompletedProcess | Raises string

text \<open>\<open>res.stderr or res.stdout\<close> and \<open>res.stdout or res.stderr\<close>.\<close>

definition stderr_or_stdout :: "CompletedProcess \<Rightarrow> string" where
  "stderr_or_stdout res = (if stderr res \<noteq> [] then stderr res else stdout res)"

definition stdout_or_stderr :: "CompletedProcess \<Rightarrow> string" where
  "stdout_or_stderr res = (if stdout res \<noteq> [] then stdout res else stderr res)"

subsection \<open>The environment of one run\<close>

text \<open>
  What \<open>open(file_path, "a")\<close> followed by \<open>f.write(line)\<close> and the close of the
  \<open>with\<close> block does: it succeeds, or \<open>open\<close> raises (nothing reaches the file), or a
  later step raises after the first \<open>n\<close> bytes of the line have reached the file.
\<close>

datatype write_outcome = WriteOk | OpenError string | WriteError nat string

record env =
  path_isdir :: "string \<Rightarrow> bool"
  now1 :: datetime
  random_value :: real
  now2 :: datetime
  choice_entropy :: nat
  file_before :: "string option"
  write_effect :: write_outcome
  git_status :: run_result
  git_add :: run_result
  git_commit :: run_result
  git_push :: run_result
  format_3f :: "real \<Rightarrow> string"
  format_float :: "real \<Rightarrow> string"

text \<open>
  \<open>path_isdir\<close> is \<open>os.path.isdir\<close>; \<open>now1\<close> and \<open>now2\<close> are the two values of
  \<open>datetime.now()\<close> (lines 43 and 55); \<open>random_value\<close> is the value of \<open>random.random()\<close>;
  \<open>file_before\<close> is the content of the target file before the run (\<open>None\<close>: no such
  file); \<open>git_status\<close> to \<open>git_push\<close> are what the four subprocesses do when they are
  started; \<open>format_3f\<close> and \<open>format_float\<close> are Python's renderings \<open>{r:.3f}\<close> and
  \<open>{PROBABILITY}\<close> of a float, which no property below depends on.
\<close>

subsection \<open>The effects of one run\<close>

record world =
  target :: "string option"
  opened :: "(string \<times> string) list"
  spawned :: "(string list \<times> string) list"
  random_draws :: "real list"
  out_lines :: "string list"
  err_lines :: "string list"

text \<open>
  \<open>target\<close> is the content of the target file; \<open>opened\<close> lists the calls of \<open>open\<close> as
  (path, mode); \<open>spawned\<close> lists the calls of \<open>run\<close> as (command, working directory), in
  order; \<open>random_draws\<close> lists the values \<open>random.random()\<close> returned; \<open>out_lines\<close> and
  \<open>err_lines\<close> are what was printed to standard output and to standard error.
\<close>

datatype ending = Returned | SysExit int | Uncaught string

text \<open>
  How the process ends: \<open>main\<close> returns, or \<open>sys.exit(n)\<close> is called, or an exception
  reaches the top level (the interpreter then prints a traceback, which \<open>err_lines\<close> does
  not record). The exit status of the process is 0 when \<open>main\<close> returns, the argument of
  \<open>sys.exit\<close> (the source passes 2 to 7), and 1 after an uncaught exception.
\<close>

fun exit_code :: "ending \<Rightarrow> int" where
  "exit_code Returned = 0"
| "exit_code (SysExit n) = n"
| "exit_code (Uncaught _) = 1"

definition contents :: "string option \<Rightarrow> string" where
  "contents f = (case f of None \<Rightarrow> [] | Some s \<Rightarrow> s)"

definition print_out :: "string \<Rightarrow> world \<Rightarrow> world" where
  "print_out s w = w\<lparr>out_lines := out_lines w @ [s]\<rparr>"

definition print_err :: "string \<Rightarrow> world \<Rightarrow> world" where
  "print_err s w = w\<lparr>err_lines := err_lines w @ [s]\<rparr>"

text \<open>\<open>run(cmd, cwd=..., capture=True)\<close>: the subprocess is started.\<close>

definition run :: "string list \<Rightarrow> string \<Rightarrow> world \<Rightarrow> world" where
  "run cmd cwd w = w\<lparr>spawned := spawned w @ [(cmd, cwd)]\<rparr>"

text \<open>\<open>open(path, "a")\<close> and the writing of the first \<open>n\<close> bytes of \<open>line\<close>.\<close>

definition open_append :: "string \<Rightarrow> world \<Rightarrow> world" where
  "open_append path w = w\<lparr>opened := opened w @ [(path, ''a'')]\<rparr>"

definition append_bytes :: "string \<Rightarrow> world \<Rightarrow> world" where
  "append_bytes s w = w\<lparr>target := Some (contents (target w) @ s)\<rparr>"

section \<open>The program\<close>

text \<open>
  Lines 69 to 105: the \<open>try\<close> block around the git commands. \<open>sys.exit\<close> raises
  \<open>SystemExit\<close>, which is not an \<open>Exception\<close>, so the handler of line 103 catches only
  what \<open>run\<close> raises.
\<close>

definition git_operations :: "config \<Rightarrow> env \<Rightarrow> string \<Rightarrow> string \<Rightarrow> world \<Rightarrow> ending \<times> world" where
  "git_operations c e ts note w0 =
     (let w1 = run [''git'', ''status'', ''--porcelain''] (REPO_DIR c) w0 in
      case git_status e of
        Raises m \<Rightarrow> (SysExit 7, print_err (''ERROR during git operations: '' @ m) w1)
      | Done res1 \<Rightarrow>
         (if returncode res1 \<noteq> 0
          then (SysExit 4, print_err (''git status failed: '' @ stderr_or_stdout res1) w1)
          else
            let w2 = run [''git'', ''add'', FILENAME c] (REPO_DIR c) w1 in
            (case git_add e of
              Raises m \<Rightarrow> (SysExit 7, print_err (''ERROR during git operations: '' @ m) w2)
            | Done res2 \<Rightarrow>
               (if returncode res2 \<noteq> 0
                then (SysExit 5, print_err (''git add failed: '' @ stderr_or_stdout res2) w2)
                else
                  let commit_msg = commit_message ts note in
                  if DRY_RUN c
                  then (Returned,
                        print_out (''[DRY RUN] Would commit with message: '' @ commit_msg) w2)
                  else
                    let w3 = run [''git'', ''commit'', ''-m'', commit_msg] (REPO_DIR c) w2 in
                    (case git_commit e of
                      Raises m \<Rightarrow>
                        (SysExit 7, print_err (''ERROR during git operations: '' @ m) w3)
                    | Done res3 \<Rightarrow>
                       (if returncode res3 \<noteq> 0
                        then (Returned,
                              print_out (stdout_or_stderr res3)
                                (print_out ''git commit returned non-zero. Output:'' w3))
                        else
                          let w4 = run [''git'', ''push''] (REPO_DIR c) w3 in
                          (case git_push e of
                            Raises m \<Rightarrow>
                              (SysExit 7,
                               print_err (''ERROR during git operations: '' @ m) w4)
                          | Done res4 \<Rightarrow>
                             (if returncode res4 \<noteq> 0
                              then (SysExit 6,
                                    print_err (''git push failed: '' @ stderr_or_stdout res4) w4)
                              else (Returned,
                                    print_out
                                      (''Success: committed and pushed: '' @ commit_msg)
                                      w4)))))))))"

definition initial_world :: "env \<Rightarrow> world" where
  "initial_world e =
     \<lparr> target = file_before e, opened = [], spawned = [], random_draws = [],
       out_lines = [], err_lines = [] \<rparr>"

definition main :: "config \<Rightarrow> env \<Rightarrow> ending \<times> world" where
  "main c e =
     (let w0 = initial_world e in
      if \<not> path_isdir e (REPO_DIR c)
      then (SysExit 2, print_err (''ERROR: REPO_DIR not found: '' @ REPO_DIR c) w0)
      else
        if weekday (now1 e) \<ge> 5
        then (Returned, print_out ''Not a weekday (Sat/Sun). Exiting.'' w0)
        else
          let r = random_value e;
              w1 = print_out
                     (''Random roll: '' @ format_3f e r @ '' (need < ''
                        @ format_float e (PROBABILITY c) @ '')'')
                     (w0\<lparr>random_draws := random_draws w0 @ [r]\<rparr>)
          in
          if r \<ge> PROBABILITY c
          then (Returned,
                print_out ''Skipping commit this run (rolled above probability).'' w1)
          else
            let ts = isoformat_seconds (now2 e) in
            case random_choice (choice_entropy e) (NOTES c) of
              None \<Rightarrow> (Uncaught ''IndexError'', w1)
            | Some note \<Rightarrow>
                let line = activity_line ts note;
                    file_path = os_path_join (REPO_DIR c) (FILENAME c);
                    w2 = open_append file_path w1
                in
                (case write_effect e of
                  OpenError m \<Rightarrow> (SysExit 3, print_err (''ERROR writing file: '' @ m) w2)
                | WriteError n m \<Rightarrow>
                    (SysExit 3,
                     print_err (''ERROR writing file: '' @ m) (append_bytes (take n line) w2))
                | WriteOk \<Rightarrow> git_operations c e ts note (append_bytes line w2)))"

section \<open>Notions used by the properties\<close>

text \<open>
  The two rest days are Saturday (weekday 5) and Sunday (weekday 6); the source tests
  \<open>weekday >= 5\<close>.
\<close>

definition rest_day :: "datetime \<Rightarrow> bool" where
  "rest_day d = (weekday d = 5 \<or> weekday d = 6)"

text \<open>The git subcommands started during a run, in order.\<close>

definition subcommands :: "world \<Rightarrow> string list" where
  "subcommands w = map (\<lambda>(cmd, cwd). cmd ! 1) (spawned w)"



section \<open>Concrete runs\<close>

definition monday :: datetime where
  "monday =
     \<lparr> year = 2026, month = 11, day = 2, hour = 9, minute = 15, second = 30,
       microsecond = 123456 \<rparr>"

definition saturday :: datetime where
  "saturday = monday\<lparr>day := 7\<rparr>"

definition ok_process :: CompletedProcess where
  "ok_process = \<lparr> returncode = 0, stdout = [], stderr = [] \<rparr>"

definition failed_process :: CompletedProcess where
  "failed_process = \<lparr> returncode = 128, stdout = [], stderr = ''fatal: error'' \<rparr>"

text \<open>
  A Monday morning on which the repository directory exists, the roll is 0.1, the third
  note is chosen, the file has one earlier entry and every step succeeds.
\<close>

definition happy_env :: env where
  "happy_env =
     \<lparr> path_isdir = (\<lambda>p. p = ''/path/to/your/repo''),
       now1 = monday,
       random_value = 1 / 10,
       now2 = monday,
       choice_entropy = 9,
       file_before = Some (''first entry'' @ newline),
       write_effect = WriteOk,
       git_status = Done ok_process,
       git_add = Done ok_process,
       git_commit = Done ok_process,
       git_push = Done ok_process,
       format_3f = (\<lambda>r. ''0.100''),
       format_float = (\<lambda>p. ''0.7'') \<rparr>"

definition dry_config :: config where
  "dry_config = default_config\<lparr>DRY_RUN := True\<rparr>"

text \<open>The same morning, but the placeholder path of the source is not a directory.\<close>

definition no_repo_env :: env where
  "no_repo_env = happy_env\<lparr>path_isdir := (\<lambda>p. False)\<rparr>"

text \<open>A Saturday on which the repository path is not a directory.\<close>

definition saturday_no_repo_env :: env where
  "saturday_no_repo_env = no_repo_env\<lparr>now1 := saturday, now2 := saturday\<rparr>"

text \<open>A Saturday on which everything else is in order.\<close>

definition saturday_env :: env where
  "saturday_env = happy_env\<lparr>now1 := saturday, now2 := saturday\<rparr>"

text \<open>A Monday on which the roll is 0.9.\<close>

definition high_roll_env :: env where
  "high_roll_env = happy_env\<lparr>random_value := 9 / 10, format_3f := (\<lambda>r. ''0.900'')\<rparr>"

text \<open>Mondays on which one step fails.\<close>

definition permission_denied_env :: env where
  "permission_denied_env =
     happy_env\<lparr>write_effect := OpenError ''[Errno 13] Permission denied''\<rparr>"

definition disk_full_env :: env where
  "disk_full_env =
     happy_env\<lparr>write_effect := WriteError 5 ''[Errno 28] No space left on device''\<rparr>"

definition status_fails_env :: env where
  "status_fails_env = happy_env\<lparr>git_status := Done failed_process\<rparr>"

definition add_fails_env :: env where
  "add_fails_env = happy_env\<lparr>git_add := Done failed_process\<rparr>"

definition nothing_to_commit_env :: env where
  "nothing_to_commit_env =
     happy_env\<lparr>git_commit :=
       Done \<lparr> returncode = 1, stdout = ''nothing to commit'', stderr = [] \<rparr>\<rparr>"

definition push_fails_env :: env where
  "push_fails_env = happy_env\<lparr>git_push := Done failed_process\<rparr>"

definition git_missing_env :: env where
  "git_missing_env =
     happy_env\<lparr>git_status := Raises ''[Errno 2] No such file or directory: git''\<rparr>"

section \<open>Auxiliary facts\<close>

lemmas step_defs =
  print_out_def print_err_def run_def open_append_def append_bytes_def initial_world_def

lemmas date_defs =
  weekday_def toordinal_def days_before_year_def days_before_month_def is_leap_def
  rest_day_def monday_def saturday_def

lemmas input_defs =
  default_config_def dry_config_def happy_env_def no_repo_env_def saturday_no_repo_env_def
  saturday_env_def high_roll_env_def ok_process_def failed_process_def
  permission_denied_env_def disk_full_env_def status_fails_env_def add_fails_env_def
  nothing_to_commit_env_def push_fails_env_def git_missing_env_def

lemmas run_defs =
  main_def git_operations_def Let_def step_defs subcommands_def random_choice_def

lemma weekday_less_7: "weekday d < 7"
  by (simp add: weekday_def)

lemma rest_day_iff: "rest_day d \<longleftrightarrow> weekday d \<ge> 5"
  using weekday_less_7 [of d] unfolding rest_day_def by arith

text \<open>The git commands touch neither the target file nor the random source.\<close>

lemma git_operations_frame:
  "target (snd (git_operations c e ts note w)) = target w \<and>
   opened (snd (git_operations c e ts note w)) = opened w \<and>
   random_draws (snd (git_operations c e ts note w)) = random_draws w"
  by (simp add: git_operations_def Let_def step_defs split: run_result.splits)

text \<open>
  A run draws a sample exactly when it gets past the repository check and the calendar
  gate, and then it draws one.
\<close>

lemma random_draws_iff:
  "random_draws (snd (main c e)) = [r] \<longleftrightarrow>
     path_isdir e (REPO_DIR c) \<and> \<not> rest_day (now1 e) \<and> r = random_value e"
  by (auto simp: main_def Let_def step_defs rest_day_iff git_operations_frame
      split: option.splits write_outcome.splits)

subsection \<open>The timestamp\<close>


















subsection \<open>Facts about the concrete runs\<close>

lemma happy_facts:
  "\<not> rest_day (now1 happy_env)"
  "(1 / 10 :: real) < PROBABILITY default_config"
  "random_choice (choice_entropy happy_env) (NOTES default_config) = Some ''daily log entry''"
  "isoformat_seconds (now2 happy_env) = ''2026-11-02T09:15:30''"
  "valid_datetime (now2 happy_env)"
  "NOTES default_config \<noteq> []"
  by (simp_all add: input_defs date_defs random_choice_def isoformat_seconds_def zero_padded_def
      decimal.simps digit_char_def valid_datetime_def days_in_month_def)

lemma dry_facts:
  "DRY_RUN dry_config"
  "(1 / 10 :: real) < PROBABILITY dry_config"
  "random_choice (choice_entropy happy_env) (NOTES dry_config) = Some ''daily log entry''"
  "write_effect happy_env = WriteOk"
  "git_status happy_env = Done ok_process"
  "git_add happy_env = Done ok_process"
  "returncode ok_process = 0"
  "file_before happy_env = Some (''first entry'' @ newline)"
  by (simp_all add: input_defs random_choice_def)

lemma dry_draws: "random_draws (snd (main dry_config happy_env)) = [1 / 10]"
  by (simp add: random_draws_iff happy_facts) (simp add: input_defs)


subsection \<open>Which runs end with which exit code\<close>










section \<open>Exit codes\<close>



section \<open>The repository check\<close>

text \<open>
  C5. If the configured repository path is not an existing directory, the process prints
  the diagnostic to standard error and exits with code 2; the target file is untouched,
  nothing is opened, no subprocess is started and no sample is drawn.
\<close>

theorem missing_repo_exits_2:
  assumes "\<not> path_isdir e (REPO_DIR c)"
  shows "fst (main c e) = SysExit 2 \<and> exit_code (fst (main c e)) = 2 \<and>
         err_lines (snd (main c e)) = [''ERROR: REPO_DIR not found: '' @ REPO_DIR c] \<and>
         out_lines (snd (main c e)) = [] \<and>
         target (snd (main c e)) = file_before e \<and>
         opened (snd (main c e)) = [] \<and>
         spawned (snd (main c e)) = [] \<and>
         random_draws (snd (main c e)) = []"
  using assms by (simp add: main_def Let_def step_defs)

theorem missing_repo_exits_2_witness:
  "\<not> path_isdir no_repo_env (REPO_DIR default_config) \<and>
   exit_code (fst (main default_config no_repo_env)) = 2 \<and>
   err_lines (snd (main default_config no_repo_env)) =
     [''ERROR: REPO_DIR not found: /path/to/your/repo''] \<and>
   target (snd (main default_config no_repo_env)) = Some (''first entry'' @ newline) \<and>
   opened (snd (main default_config no_repo_env)) = [] \<and>
   spawned (snd (main default_config no_repo_env)) = []"
proof -
  have h: "\<not> path_isdir no_repo_env (REPO_DIR default_config)"
    by (simp add: input_defs)
  from missing_repo_exits_2 [OF h] h show ?thesis
    by (simp add: input_defs)
qed

section \<open>The calendar gate\<close>

text \<open>
  C3, as amended. On a rest day (Saturday or Sunday) the target file is not mutated,
  nothing is opened, no subprocess is started and no sample is drawn; if moreover the
  repository path is an existing directory, \<open>main\<close> returns (exit code 0) after
  printing its one message. The repository check comes first: on a rest day with an
  invalid repository path the exit code is 2.
\<close>

theorem rest_day_no_action:
  assumes "rest_day (now1 e)"
  shows "target (snd (main c e)) = file_before e \<and>
         opened (snd (main c e)) = [] \<and>
         spawned (snd (main c e)) = [] \<and>
         random_draws (snd (main c e)) = [] \<and>
         (path_isdir e (REPO_DIR c) \<longrightarrow>
            fst (main c e) = Returned \<and> exit_code (fst (main c e)) = 0 \<and>
            out_lines (snd (main c e)) = [''Not a weekday (Sat/Sun). Exiting.''] \<and>
            err_lines (snd (main c e)) = [])"
  using assms by (simp add: main_def Let_def step_defs rest_day_iff)

theorem rest_day_no_action_witness:
  "rest_day (now1 saturday_env) \<and>
   path_isdir saturday_env (REPO_DIR default_config) \<and>
   fst (main default_config saturday_env) = Returned \<and>
   exit_code (fst (main default_config saturday_env)) = 0 \<and>
   target (snd (main default_config saturday_env)) = Some (''first entry'' @ newline) \<and>
   opened (snd (main default_config saturday_env)) = [] \<and>
   spawned (snd (main default_config saturday_env)) = []"
proof -
  have h: "rest_day (now1 saturday_env)"
    by (simp add: input_defs date_defs)
  have d: "path_isdir saturday_env (REPO_DIR default_config)"
    by (simp add: input_defs)
  from rest_day_no_action [OF h, of default_config] h d show ?thesis
    by (simp add: input_defs)
qed

text \<open>
  The claim as stated (every rest-day run exits with code 0) fails: with the constants of
  the source and no directory at the placeholder path, a Saturday run exits with code 2.
\<close>

theorem rest_day_exit_0_counterexample:
  "rest_day (now1 saturday_no_repo_env) \<and>
   fst (main default_config saturday_no_repo_env) = SysExit 2 \<and>
   exit_code (fst (main default_config saturday_no_repo_env)) = 2"
  by (simp add: main_def Let_def input_defs date_defs)

section \<open>The probabilistic gate\<close>

text \<open>
  C4. In every run on a non-rest day whose one random sample is greater than or equal
  to the configured probability, \<open>main\<close> returns (exit code 0), the target file is
  unchanged, nothing is opened and no subprocess is started.
\<close>

theorem probability_miss_no_mutation:
  assumes "\<not> rest_day (now1 e)"
      and "random_draws (snd (main c e)) = [r]"
      and "r \<ge> PROBABILITY c"
  shows "fst (main c e) = Returned \<and> exit_code (fst (main c e)) = 0 \<and>
         target (snd (main c e)) = file_before e \<and>
         opened (snd (main c e)) = [] \<and>
         spawned (snd (main c e)) = []"
  using assms
  by (auto simp add: main_def Let_def step_defs rest_day_iff git_operations_frame
      split: if_splits option.splits write_outcome.splits)

theorem probability_miss_no_mutation_witness:
  "\<not> rest_day (now1 high_roll_env) \<and>
   random_draws (snd (main default_config high_roll_env)) = [9 / 10] \<and>
   (9 / 10 :: real) \<ge> PROBABILITY default_config \<and>
   fst (main default_config high_roll_env) = Returned \<and>
   exit_code (fst (main default_config high_roll_env)) = 0 \<and>
   target (snd (main default_config high_roll_env)) = Some (''first entry'' @ newline) \<and>
   opened (snd (main default_config high_roll_env)) = [] \<and>
   spawned (snd (main default_config high_roll_env)) = []"
proof -
  have h1: "\<not> rest_day (now1 high_roll_env)"
    by (simp add: input_defs date_defs)
  have h2: "random_draws (snd (main default_config high_roll_env)) = [9 / 10]"
    by (simp add: random_draws_iff h1) (simp add: input_defs)
  have h3: "(9 / 10 :: real) \<ge> PROBABILITY default_config"
    by (simp add: input_defs)
  from probability_miss_no_mutation [OF h1 h2 h3] h1 h2 h3 show ?thesis
    by (simp add: input_defs)
qed

section \<open>The commit step\<close>



section \<open>The log file\<close>

text \<open>
  C9. The target file is append-only on every path: the content before the run is a
  prefix of the content after it; the program opens the file at most once, at
  \<open>REPO_DIR/FILENAME\<close> and in mode \<open>a\<close>; and once the write has succeeded the line stays
  in the file whatever the status, add, commit and push steps do afterwards (the
  statement holds for every environment, so also for those in which a later step fails).
\<close>

theorem log_file_append_only:
  "prefix (contents (file_before e)) (contents (target (snd (main c e)))) \<and>
   length (opened (snd (main c e))) \<le> 1 \<and>
   (\<forall>(p, m) \<in> set (opened (snd (main c e))).
      p = os_path_join (REPO_DIR c) (FILENAME c) \<and> m = ''a'') \<and>
   (\<forall>note. opened (snd (main c e)) \<noteq> [] \<and> write_effect e = WriteOk \<and>
       random_choice (choice_entropy e) (NOTES c) = Some note \<longrightarrow>
       target (snd (main c e)) =
         Some (contents (file_before e) @ activity_line (isoformat_seconds (now2 e)) note))"
  by (simp add: main_def Let_def step_defs git_operations_frame contents_def
      split: if_splits option.splits write_outcome.splits)

theorem log_file_append_only_witness:
  "exit_code (fst (main default_config push_fails_env)) = 6 \<and>
   opened (snd (main default_config push_fails_env)) =
     [(''/path/to/your/repo/activity_log.txt'', ''a'')] \<and>
   file_before push_fails_env = Some (''first entry'' @ newline) \<and>
   target (snd (main default_config push_fails_env)) =
     Some (''first entry'' @ newline @ ''2026-11-02T09:15:30 '' @ em_dash
             @ '' daily log entry'' @ newline) \<and>
   prefix (''first entry'' @ newline)
     (contents (target (snd (main default_config push_fails_env))))"
proof -
  have 1: "exit_code (fst (main default_config push_fails_env)) = 6"
    by (simp add: run_defs input_defs date_defs)
  have 2: "opened (snd (main default_config push_fails_env)) =
             [(''/path/to/your/repo/activity_log.txt'', ''a'')]"
    by (simp add: main_def Let_def step_defs git_operations_frame random_choice_def
        os_path_join_def input_defs date_defs)
  have 3: "random_choice (choice_entropy push_fails_env) (NOTES default_config) =
             Some ''daily log entry''"
    by (simp add: random_choice_def input_defs)
  have 4: "isoformat_seconds (now2 push_fails_env) = ''2026-11-02T09:15:30''"
    by (simp add: isoformat_seconds_def zero_padded_def decimal.simps digit_char_def
        input_defs date_defs)
  have 5: "write_effect push_fails_env = WriteOk"
    "file_before push_fails_env = Some (''first entry'' @ newline)"
    by (simp_all add: input_defs)
  from log_file_append_only [of push_fails_env default_config] 1 2 3 4 5 show ?thesis
    by (simp add: activity_line_def contents_def)
qed

text \<open>
  A write that fails after five bytes leaves those bytes in the file; the run exits
  with code 3 and starts no git command.
\<close>

lemma partial_write_run:
  "fst (main default_config disk_full_env) = SysExit 3 \<and>
   target (snd (main default_config disk_full_env)) =
     Some (''first entry'' @ newline @ ''2026-'') \<and>
   spawned (snd (main default_config disk_full_env)) = []"
  by (simp add: run_defs activity_line_def contents_def isoformat_seconds_def zero_padded_def
      decimal.simps digit_char_def input_defs date_defs)

section \<open>The status probe\<close>

text \<open>
  C10. Only the return code of \<open>git status --porcelain\<close> is inspected: replacing the
  captured standard output and standard error of a probe that returned 0 by any other
  text leaves the whole run (how it ends and all its effects) the same. In particular,
  whatever the probe printed (nothing, for a clean working tree), a run that started the
  probe goes on to start \<open>git add\<close>, and \<open>git commit\<close> as well when \<open>git add\<close> returns 0
  outside dry-run mode.
\<close>

theorem status_output_ignored:
  assumes "git_status e = Done res" and "returncode res = 0"
  shows "main c (e\<lparr>git_status := Done (res\<lparr>stdout := out', stderr := err'\<rparr>)\<rparr>) = main c e \<and>
         (''status'' \<in> set (subcommands (snd (main c e))) \<longrightarrow>
            ''add'' \<in> set (subcommands (snd (main c e))) \<and>
            (\<forall>res2. git_add e = Done res2 \<and> returncode res2 = 0 \<and> \<not> DRY_RUN c \<longrightarrow>
               ''commit'' \<in> set (subcommands (snd (main c e)))))"
  using assms
  by (simp add: main_def git_operations_def Let_def step_defs subcommands_def
      split: if_splits option.splits write_outcome.splits run_result.splits)

theorem status_output_ignored_witness:
  "git_status happy_env = Done ok_process \<and> returncode ok_process = 0 \<and>
   stdout ok_process = [] \<and>
   main default_config
     (happy_env\<lparr>git_status :=
        Done (ok_process\<lparr>stdout := '' M activity_log.txt'', stderr := ''warning''\<rparr>)\<rparr>)
     = main default_config happy_env \<and>
   subcommands (snd (main default_config happy_env)) =
     [''status'', ''add'', ''commit'', ''push'']"
proof -
  have h1: "git_status happy_env = Done ok_process"
    by (simp add: input_defs)
  have h2: "returncode ok_process = 0" "stdout ok_process = []"
    by (simp_all add: input_defs)
  have h3: "subcommands (snd (main default_config happy_env)) =
              [''status'', ''add'', ''commit'', ''push'']"
    by (simp add: run_defs input_defs date_defs)
  from status_output_ignored [OF h1 h2(1), of default_config] h1 h2 h3 show ?thesis
    by simp
qed

section \<open>The activity record\<close>




section \<open>Dry run\<close>

text \<open>
  C7, as amended. When the dry-run flag is set, neither \<open>git commit\<close> nor \<open>git push\<close> is
  ever started; in a run that passes both gates and writes the file, the line is
  appended, \<open>git status --porcelain\<close> is started, and when it returns 0
  \<open>git add FILENAME\<close> is started as well: the target file is staged also in a dry run,
  since the flag is tested only after the add step (lines 77 to 85).
\<close>

theorem dry_run_still_stages:
  assumes "DRY_RUN c"
  shows "''commit'' \<notin> set (subcommands (snd (main c e))) \<and>
         ''push'' \<notin> set (subcommands (snd (main c e))) \<and>
         (\<not> rest_day (now1 e) \<and> random_draws (snd (main c e)) = [r] \<and> r < PROBABILITY c \<and>
            random_choice (choice_entropy e) (NOTES c) = Some note \<and> write_effect e = WriteOk \<longrightarrow>
            target (snd (main c e)) =
              Some (contents (file_before e) @ activity_line (isoformat_seconds (now2 e)) note) \<and>
            ([''git'', ''status'', ''--porcelain''], REPO_DIR c) \<in> set (spawned (snd (main c e))) \<and>
            (\<forall>res. git_status e = Done res \<and> returncode res = 0 \<longrightarrow>
               ([''git'', ''add'', FILENAME c], REPO_DIR c) \<in> set (spawned (snd (main c e)))))"
  using assms
  by (auto simp add: main_def git_operations_def Let_def step_defs subcommands_def rest_day_iff
      split: if_splits option.splits write_outcome.splits run_result.splits)

theorem dry_run_still_stages_witness:
  "DRY_RUN dry_config \<and>
   ''commit'' \<notin> set (subcommands (snd (main dry_config happy_env))) \<and>
   ''push'' \<notin> set (subcommands (snd (main dry_config happy_env))) \<and>
   target (snd (main dry_config happy_env)) =
     Some (''first entry'' @ newline @
           ''2026-11-02T09:15:30 '' @ em_dash @ '' daily log entry'' @ newline) \<and>
   ([''git'', ''status'', ''--porcelain''], REPO_DIR dry_config)
     \<in> set (spawned (snd (main dry_config happy_env))) \<and>
   ([''git'', ''add'', FILENAME dry_config], REPO_DIR dry_config)
     \<in> set (spawned (snd (main dry_config happy_env)))"
proof -
  note t = dry_run_still_stages
             [OF dry_facts(1), of happy_env "1 / 10" "''daily log entry''"]
  from t have a: "''commit'' \<notin> set (subcommands (snd (main dry_config happy_env)))"
    "''push'' \<notin> set (subcommands (snd (main dry_config happy_env)))"
    by blast+
  from t happy_facts(1) dry_draws dry_facts(2,3,4)
  have b: "target (snd (main dry_config happy_env)) =
        Some (contents (file_before happy_env)
                @ activity_line (isoformat_seconds (now2 happy_env)) ''daily log entry'')"
    "([''git'', ''status'', ''--porcelain''], REPO_DIR dry_config)
       \<in> set (spawned (snd (main dry_config happy_env)))"
    "\<forall>res. git_status happy_env = Done res \<and> returncode res = 0 \<longrightarrow>
       ([''git'', ''add'', FILENAME dry_config], REPO_DIR dry_config)
         \<in> set (spawned (snd (main dry_config happy_env)))"
    by blast+
  from b(3) dry_facts(5,7)
  have c: "([''git'', ''add'', FILENAME dry_config], REPO_DIR dry_config)
             \<in> set (spawned (snd (main dry_config happy_env)))"
    by blast
  from b(1) have d: "target (snd (main dry_config happy_env)) =
     Some (''first entry'' @ newline @
           ''2026-11-02T09:15:30 '' @ em_dash @ '' daily log entry'' @ newline)"
    by (simp add: happy_facts(4) dry_facts(8) activity_line_def contents_def)
  from dry_facts(1) a b(2) c d show ?thesis
    by blast
qed

text \<open>
  The claim as stated (no version-control side effect, the file is not staged) fails: a
  dry run in which every step succeeds starts \<open>git add activity_log.txt\<close>.
\<close>

theorem dry_run_not_staged_counterexample:
  "DRY_RUN dry_config \<and>
   spawned (snd (main dry_config happy_env)) =
     [([''git'', ''status'', ''--porcelain''], ''/path/to/your/repo''),
      ([''git'', ''add'', ''activity_log.txt''], ''/path/to/your/repo'')]"
  by (simp add: run_defs input_defs date_defs)




end
